theory Spec2Isabelle
  imports Main
begin

section \<open>InfArray: a small-buffer array that migrates to a std::vector\<close>

text \<open>
  The class template \<^verbatim>\<open>InfArray<T,ArrSize>\<close> of \<^verbatim>\<open>itensor/util/infarray.h\<close> has four
  members: a raw pointer \<^verbatim>\<open>data_\<close>, a count \<^verbatim>\<open>size_\<close>, an inline \<^verbatim>\<open>std::array<T,ArrSize> arr_\<close>
  and a \<^verbatim>\<open>std::vector<T> vec_\<close>. The pointer \<^verbatim>\<open>data_\<close> is set to the first slot of \<^verbatim>\<open>arr_\<close>
  or of the vector's allocation, and every element access goes through it. Several
  properties depend on which storage a pointer designates, so the embedding keeps an
  explicit memory: container objects and vector allocations are addressed by identifiers
  and a pointer names the block whose first slot it holds.

  The template parameter \<^verbatim>\<open>ArrSize\<close> is the first argument \<open>N\<close> of the functions that
  use it (the spec fixes it positive), the object a member function is called on is the
  argument \<open>this\<close>. The element type \<open>'a\<close> is of class \<open>zero\<close>: \<open>0\<close> stands for the
  value-initialised \<^verbatim>\<open>T()\<close> that \<^verbatim>\<open>std::vector::resize\<close> stores in new elements. Counts of
  type \<^verbatim>\<open>size_t\<close> are natural numbers; the one place where the source would wrap
  (\<^verbatim>\<open>size_-1\<close> in \<^verbatim>\<open>back()\<close> of an empty container) is written out. A name cannot
  end with an underscore here, so the members are \<open>data_m\<close>, \<open>size_m\<close>, \<open>arr_m\<close> and
  \<open>vec_m\<close>.
\<close>

subsection \<open>Memory\<close>

type_synonym obj_id = nat
type_synonym buf_id = nat

datatype ptr = nullptr | arr_front obj_id | buf_start buf_id

text \<open>
  Modelled from the spec: \<^verbatim>\<open>Error\<close> is declared in \<^verbatim>\<open>itensor/util/error.h\<close>, which is not
  part of the sources at hand. The spec describes it as the fatal-error reporter that takes
  a message and never returns, so the operation ends there with the message.

  A call ends with a result, or with a fault: \<open>Error msg\<close> is the call \<^verbatim>\<open>Error(msg)\<close> of
  the source, \<open>Undefined\<close> an access outside every live block of storage (undefined
  behaviour in C++). Accesses are checked against the block, the inline array or the
  allocation, not against the size of the vector that owns the allocation.
\<close>

datatype fault = Error string | Undefined

text \<open>
  A \<^verbatim>\<open>std::vector\<close> owns at most one allocation, \<open>vbuf\<close>, and \<open>vlen\<close> is its \<^verbatim>\<open>size()\<close>.
  The slots of the allocation live in the memory; their number is the capacity.
\<close>

record vector =
  vbuf :: "buf_id option"
  vlen :: nat

record 'a infarray =
  data_m :: ptr
  size_m :: nat
  arr_m :: "'a list"
  vec_m :: vector

record 'a mem =
  objs :: "obj_id \<Rightarrow> 'a infarray"
  bufs :: "buf_id \<Rightarrow> 'a list option"
  next_buf :: buf_id

definition upd_obj :: "obj_id \<Rightarrow> ('a infarray \<Rightarrow> 'a infarray) \<Rightarrow> 'a mem \<Rightarrow> 'a mem" where
  "upd_obj this f s = s\<lparr>objs := (objs s)(this := f (objs s this))\<rparr>"

fun slots_at :: "'a mem \<Rightarrow> ptr \<Rightarrow> 'a list option" where
  "slots_at s nullptr = None"
| "slots_at s (arr_front a) = Some (arr_m (objs s a))"
| "slots_at s (buf_start b) = bufs s b"

fun put_slots :: "ptr \<Rightarrow> 'a list \<Rightarrow> 'a mem \<Rightarrow> 'a mem" where
  "put_slots nullptr xs s = s"
| "put_slots (arr_front a) xs s = upd_obj a (\<lambda>obj. obj\<lparr>arr_m := xs\<rparr>) s"
| "put_slots (buf_start b) xs s = s\<lparr>bufs := (bufs s)(b \<mapsto> xs)\<rparr>"

definition overwrite :: "'a list \<Rightarrow> nat \<Rightarrow> 'a list \<Rightarrow> 'a list" where
  "overwrite xs i vs = take i xs @ vs @ drop (i + length vs) xs"

text \<open>
  \<open>read_range s p k\<close> reads the \<open>k\<close> slots from \<open>p\<close> on, \<open>write_range p i vs\<close> stores
  \<open>vs\<close> into the slots \<open>p[i]\<close>, \<open>p[i+1]\<close>, ... Both touch no memory when the range is empty
  and are undefined when the range leaves the block. A reference (the result of
  \<^verbatim>\<open>operator[]\<close>, \<^verbatim>\<open>at\<close>, \<^verbatim>\<open>front\<close>, \<^verbatim>\<open>back\<close>) is a pointer with an offset; \<open>load\<close> reads
  through one and \<open>assign\<close> writes through one.
\<close>

definition read_range :: "'a mem \<Rightarrow> ptr \<Rightarrow> nat \<Rightarrow> fault + 'a list" where
  "read_range s p k =
     (if k = 0 then Inr []
      else case slots_at s p of
             None \<Rightarrow> Inl Undefined
           | Some xs \<Rightarrow> if k \<le> length xs then Inr (take k xs) else Inl Undefined)"

definition write_range :: "ptr \<Rightarrow> nat \<Rightarrow> 'a list \<Rightarrow> 'a mem \<Rightarrow> fault + 'a mem" where
  "write_range p i vs s =
     (if vs = [] then Inr s
      else case slots_at s p of
             None \<Rightarrow> Inl Undefined
           | Some xs \<Rightarrow> if i + length vs \<le> length xs
                        then Inr (put_slots p (overwrite xs i vs) s)
                        else Inl Undefined)"

type_synonym reference = "ptr \<times> nat"

definition load :: "'a mem \<Rightarrow> reference \<Rightarrow> fault + 'a" where
  "load s r =
     (case slots_at s (fst r) of
        None \<Rightarrow> Inl Undefined
      | Some xs \<Rightarrow> if snd r < length xs then Inr (xs ! snd r) else Inl Undefined)"

definition assign :: "reference \<Rightarrow> 'a \<Rightarrow> 'a mem \<Rightarrow> fault + 'a mem" where
  "assign r v s = write_range (fst r) (snd r) [v] s"

subsection \<open>The operations of std::vector that InfArray calls\<close>

text \<open>
  The growth policy of \<^verbatim>\<open>std::vector\<close> is left to the implementation; here a vector that
  outgrows its capacity moves to a fresh allocation of exactly the size asked for.
  InfArray fetches \<^verbatim>\<open>vec_.data()\<close> again after every call that can reallocate, so it does
  not observe the policy. Shrinking and \<^verbatim>\<open>clear()\<close> keep the allocation.
\<close>

definition vec_slots :: "'a mem \<Rightarrow> vector \<Rightarrow> 'a list" where
  "vec_slots s v =
     (case vbuf v of None \<Rightarrow> [] | Some b \<Rightarrow> (case bufs s b of None \<Rightarrow> [] | Some xs \<Rightarrow> xs))"

definition vec_data :: "vector \<Rightarrow> ptr" where
  "vec_data v = (case vbuf v of None \<Rightarrow> nullptr | Some b \<Rightarrow> buf_start b)"

definition vec_set_len :: "obj_id \<Rightarrow> nat \<Rightarrow> 'a mem \<Rightarrow> 'a mem" where
  "vec_set_len this n s = upd_obj this (\<lambda>obj. obj\<lparr>vec_m := (vec_m obj)\<lparr>vlen := n\<rparr>\<rparr>) s"

definition release :: "vector \<Rightarrow> 'a mem \<Rightarrow> 'a mem" where
  "release v s = (case vbuf v of None \<Rightarrow> s | Some b \<Rightarrow> s\<lparr>bufs := (bufs s)(b := None)\<rparr>)"

definition reallocate :: "obj_id \<Rightarrow> 'a list \<Rightarrow> nat \<Rightarrow> 'a mem \<Rightarrow> 'a mem" where
  "reallocate this xs n s =
     (let b = next_buf s;
          s1 = release (vec_m (objs s this)) s;
          s2 = s1\<lparr>bufs := (bufs s1)(b \<mapsto> xs), next_buf := Suc b\<rparr>
      in upd_obj this (\<lambda>obj. obj\<lparr>vec_m := \<lparr>vbuf = Some b, vlen = n\<rparr>\<rparr>) s2)"

definition vec_resize :: "obj_id \<Rightarrow> nat \<Rightarrow> ('a::zero) mem \<Rightarrow> 'a mem" where
  "vec_resize this n s =
     (let v = vec_m (objs s this); xs = vec_slots s v in
      if n \<le> vlen v then vec_set_len this n s
      else if n \<le> length xs
        then vec_set_len this n
               (put_slots (vec_data v) (overwrite xs (vlen v) (replicate (n - vlen v) 0)) s)
      else reallocate this (take (vlen v) xs @ replicate (n - vlen v) 0) n s)"

definition vec_push_back :: "obj_id \<Rightarrow> 'a \<Rightarrow> 'a mem \<Rightarrow> 'a mem" where
  "vec_push_back this x s =
     (let v = vec_m (objs s this); xs = vec_slots s v in
      if vlen v < length xs
        then vec_set_len this (Suc (vlen v)) (put_slots (vec_data v) (xs[vlen v := x]) s)
      else reallocate this (take (vlen v) xs @ [x]) (Suc (vlen v)) s)"

definition vec_clear :: "obj_id \<Rightarrow> 'a mem \<Rightarrow> 'a mem" where
  "vec_clear this s = vec_set_len this 0 s"

subsection \<open>Constructors and size queries\<close>

text \<open>
  \<open>blank N raw\<close> is the object before a constructor body runs: the default member
  initialisers give \<^verbatim>\<open>data_ = nullptr\<close> and \<^verbatim>\<open>size_ = 0\<close>, the vector is empty, and the \<open>N\<close>
  slots of \<^verbatim>\<open>arr_\<close> are not initialised: slot \<open>i\<close> holds \<open>raw i\<close>, whatever was there.
\<close>

definition blank :: "nat \<Rightarrow> (nat \<Rightarrow> 'a) \<Rightarrow> 'a infarray" where
  "blank N raw = \<lparr>data_m = nullptr, size_m = 0, arr_m = map raw [0..<N],
                  vec_m = \<lparr>vbuf = None, vlen = 0\<rparr>\<rparr>"

definition InfArray_empty :: "nat \<Rightarrow> obj_id \<Rightarrow> (nat \<Rightarrow> 'a) \<Rightarrow> 'a mem \<Rightarrow> 'a mem" where
  "InfArray_empty N this raw s =
     upd_obj this (\<lambda>_. (blank N raw)\<lparr>size_m := 0, data_m := arr_front this\<rparr>) s"

definition InfArray_sized ::
  "nat \<Rightarrow> obj_id \<Rightarrow> (nat \<Rightarrow> 'a) \<Rightarrow> nat \<Rightarrow> ('a::zero) mem \<Rightarrow> 'a mem" where
  "InfArray_sized N this raw sz s =
     (let s0 = upd_obj this (\<lambda>_. blank N raw) s in
      if sz < N
        then upd_obj this (\<lambda>obj. obj\<lparr>data_m := arr_front this, size_m := sz\<rparr>) s0
      else
        (let s1 = vec_resize this sz s0;
             s2 = upd_obj this (\<lambda>obj. obj\<lparr>data_m := vec_data (vec_m obj)\<rparr>) s1
         in upd_obj this (\<lambda>obj. obj\<lparr>size_m := vlen (vec_m obj)\<rparr>) s2))"

definition size_of :: "obj_id \<Rightarrow> 'a mem \<Rightarrow> nat" where
  "size_of this s = size_m (objs s this)"

definition vec_size :: "obj_id \<Rightarrow> 'a mem \<Rightarrow> nat" where
  "vec_size this s = vlen (vec_m (objs s this))"

subsection \<open>resize, clear, fill, assign\<close>

text \<open>
  Modelled from the spec: \<^verbatim>\<open>MAKE_SAFE_PTR\<close> comes from \<^verbatim>\<open>itensor/util/safe_ptr.h\<close>, which is
  not part of the sources at hand. The spec describes the copy through it as bounds-checked
  against the declared length of the destination. Both calls of \<^verbatim>\<open>resize\<close> declare the full
  length of the destination block, which is the bound \<open>write_range\<close> checks.
\<close>

definition resize :: "nat \<Rightarrow> obj_id \<Rightarrow> nat \<Rightarrow> ('a::zero) mem \<Rightarrow> fault + 'a mem" where
  "resize N this new_size s =
     (if new_size > N then
        (let s1 = vec_resize this new_size s in
         case (if size_m (objs s1 this) \<le> N
               then (case read_range s1 (arr_front this) (size_m (objs s1 this)) of
                       Inl e \<Rightarrow> Inl e
                     | Inr xs \<Rightarrow> write_range (vec_data (vec_m (objs s1 this))) 0 xs s1)
               else Inr s1) of
           Inl e \<Rightarrow> Inl e
         | Inr s2 \<Rightarrow>
             Inr (upd_obj this (\<lambda>obj. obj\<lparr>size_m := new_size\<rparr>)
                   (upd_obj this (\<lambda>obj. obj\<lparr>data_m := vec_data (vec_m obj)\<rparr>) s2)))
      else
        (case (if size_m (objs s this) > N
               then (case read_range s (vec_data (vec_m (objs s this))) new_size of
                       Inl e \<Rightarrow> Inl e
                     | Inr xs \<Rightarrow> write_range (arr_front this) 0 xs s)
               else Inr s) of
           Inl e \<Rightarrow> Inl e
         | Inr s1 \<Rightarrow>
             Inr (upd_obj this (\<lambda>obj. obj\<lparr>size_m := new_size\<rparr>)
                   (upd_obj this (\<lambda>obj. obj\<lparr>data_m := arr_front this\<rparr>)
                     (vec_clear this s1)))))"

definition clear :: "obj_id \<Rightarrow> 'a mem \<Rightarrow> 'a mem" where
  "clear this s =
     vec_clear this
       (upd_obj this (\<lambda>obj. obj\<lparr>size_m := 0\<rparr>)
         (upd_obj this (\<lambda>obj. obj\<lparr>data_m := arr_front this\<rparr>) s))"

definition fill :: "obj_id \<Rightarrow> 'a \<Rightarrow> 'a mem \<Rightarrow> fault + 'a mem" where
  "fill this val s =
     write_range (data_m (objs s this)) 0 (replicate (size_m (objs s this)) val) s"

definition assign_count :: "nat \<Rightarrow> obj_id \<Rightarrow> nat \<Rightarrow> 'a \<Rightarrow> ('a::zero) mem \<Rightarrow> fault + 'a mem" where
  "assign_count N this count val s =
     (case resize N this count s of Inl e \<Rightarrow> Inl e | Inr s1 \<Rightarrow> fill this val s1)"

definition InfArray_fill ::
  "nat \<Rightarrow> obj_id \<Rightarrow> (nat \<Rightarrow> 'a) \<Rightarrow> nat \<Rightarrow> 'a \<Rightarrow> ('a::zero) mem \<Rightarrow> fault + 'a mem" where
  "InfArray_fill N this raw sz val s = fill this val (InfArray_sized N this raw sz s)"

text \<open>The loop of the initializer-list constructor: \<^verbatim>\<open>*p = el; ++p\<close> for each element.\<close>

fun copy_in :: "ptr \<Rightarrow> nat \<Rightarrow> 'a list \<Rightarrow> 'a mem \<Rightarrow> fault + 'a mem" where
  "copy_in p i [] s = Inr s"
| "copy_in p i (el # els) s =
     (case assign (p, i) el s of Inl e \<Rightarrow> Inl e | Inr s1 \<Rightarrow> copy_in p (Suc i) els s1)"

definition InfArray_init ::
  "nat \<Rightarrow> obj_id \<Rightarrow> (nat \<Rightarrow> 'a) \<Rightarrow> 'a list \<Rightarrow> ('a::zero) mem \<Rightarrow> fault + 'a mem" where
  "InfArray_init N this raw init s =
     (case resize N this (length init) (upd_obj this (\<lambda>_. blank N raw) s) of
        Inl e \<Rightarrow> Inl e
      | Inr s1 \<Rightarrow> copy_in (data_m (objs s1 this)) 0 init s1)"

subsection \<open>Element access\<close>

text \<open>
  The macros \<^verbatim>\<open>CHECK_IND\<close> and \<^verbatim>\<open>CHECK_EMPTY\<close> expand to the checks when \<^verbatim>\<open>DEBUG\<close> is defined
  and to nothing otherwise; the flag \<open>debug\<close> says which. The accessors return a reference
  and touch no element themselves. Without the check, \<^verbatim>\<open>back()\<close> of an empty container
  forms \<^verbatim>\<open>data_[size_-1]\<close> with the index wrapped around to the largest \<^verbatim>\<open>size_t\<close>, which
  is outside every block. (\<open>back\<close> is a command of the proof language, so the function
  is \<open>back_ref\<close>.)
\<close>

definition check_ind :: "obj_id \<Rightarrow> nat \<Rightarrow> 'a mem \<Rightarrow> fault + unit" where
  "check_ind this i s =
     (if i \<ge> size_m (objs s this) then Inl (Error ''index out of range in InfArray'')
      else Inr ())"

definition check_empty :: "obj_id \<Rightarrow> 'a mem \<Rightarrow> fault + unit" where
  "check_empty this s =
     (if size_m (objs s this) = 0 then Inl (Error ''InfArray is empty'') else Inr ())"

definition at :: "obj_id \<Rightarrow> nat \<Rightarrow> 'a mem \<Rightarrow> fault + reference" where
  "at this i s =
     (case check_ind this i s of Inl e \<Rightarrow> Inl e | Inr _ \<Rightarrow> Inr (data_m (objs s this), i))"

definition index :: "bool \<Rightarrow> obj_id \<Rightarrow> nat \<Rightarrow> 'a mem \<Rightarrow> fault + reference" where
  "index debug this i s =
     (case (if debug then check_ind this i s else Inr ()) of
        Inl e \<Rightarrow> Inl e
      | Inr _ \<Rightarrow> Inr (data_m (objs s this), i))"

definition front :: "bool \<Rightarrow> obj_id \<Rightarrow> 'a mem \<Rightarrow> fault + reference" where
  "front debug this s =
     (case (if debug then check_empty this s else Inr ()) of
        Inl e \<Rightarrow> Inl e
      | Inr _ \<Rightarrow> Inr (data_m (objs s this), 0))"

definition back_ref :: "bool \<Rightarrow> obj_id \<Rightarrow> 'a mem \<Rightarrow> fault + reference" where
  "back_ref debug this s =
     (case (if debug then check_empty this s else Inr ()) of
        Inl e \<Rightarrow> Inl e
      | Inr _ \<Rightarrow>
          if size_m (objs s this) = 0 then Inl Undefined
          else Inr (data_m (objs s this), size_m (objs s this) - 1))"

definition empty :: "obj_id \<Rightarrow> 'a mem \<Rightarrow> bool" where
  "empty this s = (size_m (objs s this) = 0)"

subsection \<open>push_back\<close>

definition push_back :: "bool \<Rightarrow> nat \<Rightarrow> obj_id \<Rightarrow> 'a \<Rightarrow> ('a::zero) mem \<Rightarrow> fault + 'a mem" where
  "push_back debug N this val s =
     (if size_m (objs s this) < N then
        (case assign (arr_front this, size_m (objs s this)) val s of
           Inl e \<Rightarrow> Inl e
         | Inr s1 \<Rightarrow> Inr (upd_obj this (\<lambda>obj. obj\<lparr>size_m := Suc (size_m obj)\<rparr>) s1))
      else if size_m (objs s this) = N then
        (case resize N this (size_m (objs s this) + 1) s of
           Inl e \<Rightarrow> Inl e
         | Inr s1 \<Rightarrow>
             (case back_ref debug this s1 of
                Inl e \<Rightarrow> Inl e
              | Inr r \<Rightarrow> assign r val s1))
      else
        (let s1 = vec_push_back this val s;
             s2 = upd_obj this (\<lambda>obj. obj\<lparr>data_m := vec_data (vec_m obj)\<rparr>) s1
         in Inr (upd_obj this (\<lambda>obj. obj\<lparr>size_m := Suc (size_m obj)\<rparr>) s2)))"

text \<open>Appending a sequence of values, one \<^verbatim>\<open>push_back\<close> after the other.\<close>

fun push_all :: "bool \<Rightarrow> nat \<Rightarrow> obj_id \<Rightarrow> 'a list \<Rightarrow> ('a::zero) mem \<Rightarrow> fault + 'a mem" where
  "push_all debug N this [] s = Inr s"
| "push_all debug N this (v # vs) s =
     (case push_back debug N this v s of
        Inl e \<Rightarrow> Inl e
      | Inr s1 \<Rightarrow> push_all debug N this vs s1)"

text \<open>The values a caller reads at the indices \<open>0\<close>, ..., \<open>size() - 1\<close> with \<^verbatim>\<open>at\<close>.\<close>

fun load_all :: "'a mem \<Rightarrow> ptr \<Rightarrow> nat \<Rightarrow> fault + 'a list" where
  "load_all s p 0 = Inr []"
| "load_all s p (Suc k) =
     (case load_all s p k of
        Inl e \<Rightarrow> Inl e
      | Inr xs \<Rightarrow> (case load s (p, k) of Inl e \<Rightarrow> Inl e | Inr x \<Rightarrow> Inr (xs @ [x])))"

definition elements :: "obj_id \<Rightarrow> 'a mem \<Rightarrow> fault + 'a list" where
  "elements this s = load_all s (data_m (objs s this)) (size_m (objs s this))"

subsection \<open>swap\<close>

text \<open>
  The four statements of \<^verbatim>\<open>swap\<close> in their order. \<^verbatim>\<open>std::swap\<close> exchanges the two pointer
  values and the two counts, \<^verbatim>\<open>std::array::swap\<close> exchanges the contents of the two inline
  buffers slot by slot, and \<^verbatim>\<open>std::vector::swap\<close> exchanges the ownership of the two
  allocations without touching an element.
\<close>

definition swap :: "obj_id \<Rightarrow> obj_id \<Rightarrow> 'a mem \<Rightarrow> 'a mem" where
  "swap this other s =
     (let s1 = (let p = data_m (objs s this); q = data_m (objs s other) in
                upd_obj other (\<lambda>obj. obj\<lparr>data_m := p\<rparr>)
                  (upd_obj this (\<lambda>obj. obj\<lparr>data_m := q\<rparr>) s));
          s2 = (let m = size_m (objs s1 this); n = size_m (objs s1 other) in
                upd_obj other (\<lambda>obj. obj\<lparr>size_m := m\<rparr>)
                  (upd_obj this (\<lambda>obj. obj\<lparr>size_m := n\<rparr>) s1));
          s3 = (let xs = arr_m (objs s2 this); ys = arr_m (objs s2 other) in
                upd_obj other (\<lambda>obj. obj\<lparr>arr_m := xs\<rparr>)
                  (upd_obj this (\<lambda>obj. obj\<lparr>arr_m := ys\<rparr>) s2))
      in (let v = vec_m (objs s3 this); w = vec_m (objs s3 other) in
          upd_obj other (\<lambda>obj. obj\<lparr>vec_m := v\<rparr>)
            (upd_obj this (\<lambda>obj. obj\<lparr>vec_m := w\<rparr>) s3)))"

subsection \<open>Copying and moving a container\<close>

text \<open>
  The class declares no copy constructor, no move constructor, no assignment operator and
  no destructor, so the compiler supplies them: each copies, moves or assigns the four
  members one by one, in the order of their declaration.
  \<^item> The pointer \<^verbatim>\<open>data_\<close> and the count \<^verbatim>\<open>size_\<close> are scalars: copying and moving both
    copy the value and leave the source as it is.
  \<^item> \<^verbatim>\<open>std::array\<close> copies or moves slot by slot; for the scalar element types the
    container is used with, moving a slot is copying it.
  \<^item> Copying a \<^verbatim>\<open>std::vector\<close> gives the copy an allocation of its own with the same
    elements (copy assignment reuses the allocation of the target when its capacity
    suffices). Moving one hands its allocation over and leaves the source vector empty.
  The object \<open>this\<close> is the new or assigned container, \<open>other\<close> the one it is made from,
  a different object.
\<close>

definition empty_vector :: vector where
  "empty_vector = \<lparr>vbuf = None, vlen = 0\<rparr>"

definition vec_copy_construct :: "obj_id \<Rightarrow> vector \<Rightarrow> 'a mem \<Rightarrow> 'a mem" where
  "vec_copy_construct this v s =
     (let xs = take (vlen v) (vec_slots s v) in
      if xs = [] then upd_obj this (\<lambda>obj. obj\<lparr>vec_m := empty_vector\<rparr>) s
      else
        (let b = next_buf s in
         upd_obj this (\<lambda>obj. obj\<lparr>vec_m := \<lparr>vbuf = Some b, vlen = length xs\<rparr>\<rparr>)
           (s\<lparr>bufs := (bufs s)(b \<mapsto> xs), next_buf := Suc b\<rparr>)))"

definition vec_copy_assign :: "obj_id \<Rightarrow> vector \<Rightarrow> 'a mem \<Rightarrow> 'a mem" where
  "vec_copy_assign this v s =
     (let xs = take (vlen v) (vec_slots s v);
          mine = vec_m (objs s this);
          slots = vec_slots s mine in
      if length xs \<le> length slots
        then vec_set_len this (length xs) (put_slots (vec_data mine) (overwrite slots 0 xs) s)
      else reallocate this xs (length xs) s)"

definition InfArray_copy :: "obj_id \<Rightarrow> obj_id \<Rightarrow> 'a mem \<Rightarrow> 'a mem" where
  "InfArray_copy this other s =
     (let src = objs s other;
          s1 = upd_obj this (\<lambda>_. \<lparr>data_m = data_m src, size_m = size_m src,
                                    arr_m = arr_m src, vec_m = empty_vector\<rparr>) s
      in vec_copy_construct this (vec_m src) s1)"

definition InfArray_move :: "obj_id \<Rightarrow> obj_id \<Rightarrow> 'a mem \<Rightarrow> 'a mem" where
  "InfArray_move this other s =
     (let src = objs s other;
          s1 = upd_obj this (\<lambda>_. \<lparr>data_m = data_m src, size_m = size_m src,
                                    arr_m = arr_m src, vec_m = vec_m src\<rparr>) s
      in upd_obj other (\<lambda>obj. obj\<lparr>vec_m := empty_vector\<rparr>) s1)"

definition copy_assign :: "obj_id \<Rightarrow> obj_id \<Rightarrow> 'a mem \<Rightarrow> 'a mem" where
  "copy_assign this other s =
     (let src = objs s other;
          s1 = upd_obj this (\<lambda>obj. obj\<lparr>data_m := data_m src, size_m := size_m src,
                                         arr_m := arr_m src\<rparr>) s
      in vec_copy_assign this (vec_m src) s1)"

definition move_assign :: "obj_id \<Rightarrow> obj_id \<Rightarrow> 'a mem \<Rightarrow> 'a mem" where
  "move_assign this other s =
     (let src = objs s other;
          s1 = upd_obj this (\<lambda>obj. obj\<lparr>data_m := data_m src, size_m := size_m src,
                                         arr_m := arr_m src\<rparr>) s;
          s2 = release (vec_m (objs s1 this)) s1;
          s3 = upd_obj this (\<lambda>obj. obj\<lparr>vec_m := vec_m src\<rparr>) s2
      in upd_obj other (\<lambda>obj. obj\<lparr>vec_m := empty_vector\<rparr>) s3)"

text \<open>
  The relation between the count and the length of the vector that the spec lists as an
  invariant of the container (\<^verbatim>\<open>vec_size()\<close> against \<^verbatim>\<open>size()\<close> and \<^verbatim>\<open>ArrSize\<close>).
\<close>

definition heap_inv :: "nat \<Rightarrow> obj_id \<Rightarrow> 'a mem \<Rightarrow> bool" where
  "heap_inv N this s =
     (vec_size this s = (if size_of this s \<le> N then 0 else size_of this s))"

text \<open>A memory without any allocation, to run the operations on concrete values.\<close>

definition mem0 :: "int mem" where
  "mem0 = \<lparr>objs = (\<lambda>_. blank 0 (\<lambda>_. 0)), bufs = (\<lambda>_. None), next_buf = 0\<rparr>"

section \<open>Properties\<close>

lemmas vec_defs = vec_resize_def vec_push_back_def vec_clear_def vec_set_len_def reallocate_def
  release_def vec_slots_def vec_data_def empty_vector_def vec_copy_construct_def
  vec_copy_assign_def

lemmas mem_defs = upd_obj_def read_range_def write_range_def overwrite_def load_def assign_def

lemmas op_defs = InfArray_empty_def InfArray_sized_def InfArray_fill_def InfArray_init_def
  blank_def resize_def clear_def fill_def push_back_def back_ref_def check_empty_def
  check_ind_def at_def index_def front_def elements_def size_of_def vec_size_def swap_def
  InfArray_copy_def InfArray_move_def copy_assign_def move_assign_def

subsection \<open>Reading and writing runs of slots\<close>

lemma slots_at_put_slots:
  "p \<noteq> nullptr \<Longrightarrow> slots_at (put_slots p ys s) p = Some ys"
  by (cases p) (simp_all add: upd_obj_def)

lemma put_slots_twice:
  "put_slots p zs (put_slots p ys s) = put_slots p zs s"
  by (cases p) (simp_all add: upd_obj_def)

lemma overwrite_Cons:
  "i + Suc (length vs) \<le> length xs \<Longrightarrow>
   overwrite (overwrite xs i [v]) (Suc i) vs = overwrite xs i (v # vs)"
  by (simp add: overwrite_def add.commute)

lemma length_overwrite:
  "i + length vs \<le> length xs \<Longrightarrow> length (overwrite xs i vs) = length xs"
  by (simp add: overwrite_def)

lemma copy_in_slots:
  assumes "slots_at s p = Some xs" and "i + length vs \<le> length xs"
  shows "copy_in p i vs s = Inr (if vs = [] then s else put_slots p (overwrite xs i vs) s)"
  using assms
proof (induction vs arbitrary: i s xs)
  case Nil
  then show ?case by simp
next
  case (Cons v vs)
  from Cons.prems have p: "p \<noteq> nullptr" by (cases p) auto
  let ?ys = "overwrite xs i [v]"
  let ?s1 = "put_slots p ?ys s"
  have w: "assign (p, i) v s = Inr ?s1"
    using Cons.prems by (simp add: assign_def write_range_def)
  have s1: "slots_at ?s1 p = Some ?ys" using p by (rule slots_at_put_slots)
  have len: "Suc i + length vs \<le> length ?ys"
    using Cons.prems by (simp add: length_overwrite)
  have ih: "copy_in p (Suc i) vs ?s1
              = Inr (if vs = [] then ?s1 else put_slots p (overwrite ?ys (Suc i) vs) ?s1)"
    using Cons.IH [OF s1 len] .
  have ov: "overwrite ?ys (Suc i) vs = overwrite xs i (v # vs)"
    using Cons.prems by (simp add: overwrite_Cons)
  show ?case
    using w ih ov by (simp add: put_slots_twice)
qed

lemma load_all_slots:
  assumes "slots_at s p = Some xs" and "k \<le> length xs"
  shows "load_all s p k = Inr (take k xs)"
  using assms
  by (induction k) (simp_all add: load_def take_Suc_conv_app_nth)

subsection \<open>The sized constructor\<close>

text \<open>
  What \<^verbatim>\<open>InfArray(size_t size)\<close> builds, for every length: the test of the constructor is
  \<^verbatim>\<open>size < ArrSize\<close>, so the inline buffer is chosen below the threshold only.
\<close>

lemma InfArray_sized_inline:
  assumes "sz < N"
  shows "InfArray_sized N this raw sz s =
           upd_obj this (\<lambda>_. (blank N raw)\<lparr>data_m := arr_front this, size_m := sz\<rparr>) s"
  using assms by (simp add: InfArray_sized_def upd_obj_def)

lemma InfArray_sized_heap:
  assumes "N \<le> sz" and "0 < sz"
  shows "InfArray_sized N this raw sz s =
           s\<lparr>objs := (objs s)(this := \<lparr>data_m = buf_start (next_buf s), size_m = sz,
                                         arr_m = map raw [0..<N],
                                         vec_m = \<lparr>vbuf = Some (next_buf s), vlen = sz\<rparr>\<rparr>),
             bufs := (bufs s)(next_buf s \<mapsto> replicate sz 0),
             next_buf := Suc (next_buf s)\<rparr>"
  using assms by (simp add: InfArray_sized_def vec_defs blank_def upd_obj_def Let_def)

text \<open>
  Claim C2. The claim: constructing with a length \<open>n\<close> up to and including the threshold
  gives an inline-backed container with heap length 0, and a longer one gives a heap buffer
  of length \<open>n\<close>. The constructor run at the boundary, threshold 4 and length 4: it
  allocates a heap buffer of length 4 and sets the active pointer to it, where the claim
  asks for the inline buffer and heap length 0. (\<^verbatim>\<open>resize\<close> and \<^verbatim>\<open>push_back\<close> both treat the
  size \<^verbatim>\<open>ArrSize\<close> as inline.)
\<close>

theorem sized_ctor_at_threshold:
  "size_of this (InfArray_sized 4 this raw 4 s) = 4
   \<and> vec_size this (InfArray_sized 4 this raw 4 s) = 4
   \<and> data_m (objs (InfArray_sized 4 this raw 4 s) this) = buf_start (next_buf s)"
  by (simp add: InfArray_sized_def vec_defs blank_def upd_obj_def size_of_def vec_size_def
      Let_def)

text \<open>
  What the boundary costs: the container \<^verbatim>\<open>InfArray<int,4> a(4,1)\<close> reads \<open>1, 1, 1, 1\<close> from
  its heap buffer. A \<^verbatim>\<open>push_back(5)\<close> finds \<^verbatim>\<open>size_ == ArrSize\<close>, takes the container for
  inline-backed and, in \<^verbatim>\<open>resize\<close>, copies the four inline slots (never written, here 0)
  over the four elements.
\<close>

lemma sized_ctor_then_push_back:
  "(case InfArray_fill 4 this (\<lambda>_. 0) 4 (1::int) s of
      Inl e \<Rightarrow> False
    | Inr s1 \<Rightarrow>
        elements this s1 = Inr [1, 1, 1, 1]
        \<and> (case push_back debug 4 this 5 s1 of
              Inl e \<Rightarrow> False
            | Inr s2 \<Rightarrow> elements this s2 = Inr [0, 0, 0, 0, 5]))"
  by (simp add: vec_defs mem_defs op_defs Let_def numeral_eq_Suc upt_rec)

subsection \<open>Checked access\<close>

text \<open>
  Claim C7. \<^verbatim>\<open>at(i)\<close> reports the fatal error for an index out of range exactly when
  \<open>i \<ge> size()\<close> and otherwise returns the reference to slot \<open>i\<close> of the active storage;
  it has no build-mode switch. With \<^verbatim>\<open>DEBUG\<close> defined, \<^verbatim>\<open>operator[]\<close> does the same, and
  \<^verbatim>\<open>front()\<close> and \<^verbatim>\<open>back()\<close> report the fatal error for an empty container exactly when
  \<open>size() = 0\<close> and otherwise return the reference to the first and to the last element.
  The messages are those of the source, \<^verbatim>\<open>index out of range in InfArray\<close> and
  \<^verbatim>\<open>InfArray is empty\<close>.
\<close>

theorem checked_access:
  "(at this i s = Inl (Error ''index out of range in InfArray'')) = (size_of this s \<le> i)
   \<and> (at this i s = Inr (data_m (objs s this), i)) = (i < size_of this s)
   \<and> (index True this i s = Inl (Error ''index out of range in InfArray''))
       = (size_of this s \<le> i)
   \<and> (index True this i s = Inr (data_m (objs s this), i)) = (i < size_of this s)
   \<and> (front True this s = Inl (Error ''InfArray is empty'')) = (size_of this s = 0)
   \<and> (front True this s = Inr (data_m (objs s this), 0)) = (0 < size_of this s)
   \<and> (back_ref True this s = Inl (Error ''InfArray is empty'')) = (size_of this s = 0)
   \<and> (back_ref True this s = Inr (data_m (objs s this), size_of this s - 1))
       = (0 < size_of this s)"
  by (simp add: at_def index_def front_def back_ref_def check_ind_def check_empty_def
      size_of_def)

subsection \<open>clear and resize\<close>

text \<open>
  Claim C8. In every state \<^verbatim>\<open>resize(0)\<close> succeeds and ends in the very state \<^verbatim>\<open>clear()\<close>
  ends in; there the size is 0, the heap buffer has length 0 and the active pointer is
  the start of the container's own inline buffer.
\<close>

theorem clear_is_resize_0:
  "resize N this 0 s = Inr (clear this s)
   \<and> size_of this (clear this s) = 0
   \<and> vec_size this (clear this s) = 0
   \<and> data_m (objs (clear this s) this) = arr_front this"
  by (cases "objs s this")
     (simp add: resize_def clear_def read_range_def write_range_def vec_clear_def
      vec_set_len_def upd_obj_def size_of_def vec_size_def)

text \<open>
  On a container that is inline-backed (active pointer at its own inline buffer, empty
  vector) a \<^verbatim>\<open>resize\<close> within the threshold changes the count and nothing else. In any
  state with both sizes within the threshold it succeeds, leaves the inline buffer and
  every allocation as they are, and ends inline-backed.
\<close>

lemma vlen_update_same: "vlen v = n \<Longrightarrow> v\<lparr>vlen := n\<rparr> = v"
  by (cases v) simp

lemma resize_inline_only_size:
  assumes "data_m (objs s this) = arr_front this" and "vlen (vec_m (objs s this)) = 0"
    and "size_m (objs s this) \<le> N" and "n \<le> N"
  shows "resize N this n s = Inr (upd_obj this (\<lambda>obj. obj\<lparr>size_m := n\<rparr>) s)"
  using assms
  by (cases "objs s this")
     (simp add: resize_def vec_clear_def vec_set_len_def upd_obj_def vlen_update_same)

lemma resize_inline_frame:
  assumes "size_m (objs s this) \<le> N" and "n \<le> N"
  shows "\<exists>s'. resize N this n s = Inr s' \<and> arr_m (objs s' this) = arr_m (objs s this)
           \<and> bufs s' = bufs s \<and> size_of this s' = n
           \<and> data_m (objs s' this) = arr_front this"
  using assms
  by (simp add: resize_def vec_clear_def vec_set_len_def upd_obj_def size_of_def)

text \<open>
  Claim C9. The claim: a \<^verbatim>\<open>resize\<close> with the current and the new size both at most the
  threshold changes no element storage and updates only the size. The run
  \<^verbatim>\<open>InfArray<int,4> a(4,1); a.resize(3);\<close>: the container of size 4 is heap-backed and
  reads \<open>1, 1, 1, 1\<close>; \<^verbatim>\<open>resize(3)\<close> (sizes 4 and 3, both at most 4) copies nothing, empties
  the heap buffer and moves the active pointer to the inline buffer, whose slots were
  never written (here they hold 0), so the three elements read \<open>0, 0, 0\<close>.
\<close>

theorem resize_after_sized_ctor:
  "(case InfArray_fill 4 this (\<lambda>_. 0) 4 (1::int) s of
      Inl e \<Rightarrow> False
    | Inr s1 \<Rightarrow>
        size_of this s1 = 4 \<and> data_m (objs s1 this) = buf_start (next_buf s)
        \<and> vec_size this s1 = 4 \<and> elements this s1 = Inr [1, 1, 1, 1]
        \<and> (case resize 4 this 3 s1 of
              Inl e \<Rightarrow> False
            | Inr s2 \<Rightarrow>
                size_of this s2 = 3 \<and> data_m (objs s2 this) = arr_front this
                \<and> vec_size this s2 = 0 \<and> elements this s2 = Inr [0, 0, 0]))"
  by (simp add: vec_defs mem_defs op_defs Let_def numeral_eq_Suc upt_rec)

subsection \<open>The initializer-list constructor\<close>

lemma init_resize_inline:
  assumes "L \<le> N"
  shows "resize N this L (upd_obj this (\<lambda>_. blank N raw) s) =
           Inr (s\<lparr>objs := (objs s)(this := \<lparr>data_m = arr_front this, size_m = L,
                  arr_m = map raw [0..<N], vec_m = \<lparr>vbuf = None, vlen = 0\<rparr>\<rparr>)\<rparr>)"
  using assms
  by (simp add: resize_def blank_def upd_obj_def vec_clear_def vec_set_len_def)

lemma init_resize_heap:
  assumes "N < L"
  shows "resize N this L (upd_obj this (\<lambda>_. blank N raw) s) =
           Inr (s\<lparr>objs := (objs s)(this := \<lparr>data_m = buf_start (next_buf s), size_m = L,
                  arr_m = map raw [0..<N], vec_m = \<lparr>vbuf = Some (next_buf s), vlen = L\<rparr>\<rparr>),
                 bufs := (bufs s)(next_buf s \<mapsto> replicate L 0),
                 next_buf := Suc (next_buf s)\<rparr>)"
  using assms
  by (simp add: resize_def blank_def upd_obj_def vec_defs read_range_def write_range_def Let_def)

lemma InfArray_init_inline:
  assumes "length init \<le> N"
  shows "InfArray_init N this raw init s =
           Inr (s\<lparr>objs := (objs s)(this := \<lparr>data_m = arr_front this, size_m = length init,
                  arr_m = init @ drop (length init) (map raw [0..<N]),
                  vec_m = \<lparr>vbuf = None, vlen = 0\<rparr>\<rparr>)\<rparr>)"
proof -
  let ?s1 = "s\<lparr>objs := (objs s)(this := \<lparr>data_m = arr_front this, size_m = length init,
                  arr_m = map raw [0..<N], vec_m = \<lparr>vbuf = None, vlen = 0\<rparr>\<rparr>)\<rparr>"
  have sl: "slots_at ?s1 (arr_front this) = Some (map raw [0..<N])" by simp
  have len: "0 + length init \<le> length (map raw [0..<N])" using assms by simp
  have "copy_in (arr_front this) 0 init ?s1
          = Inr (if init = [] then ?s1
                 else put_slots (arr_front this) (overwrite (map raw [0..<N]) 0 init) ?s1)"
    using copy_in_slots [OF sl len] .
  then show ?thesis
    unfolding InfArray_init_def init_resize_inline [OF assms]
    by (simp add: overwrite_def upd_obj_def)
qed

lemma InfArray_init_heap:
  assumes "N < length init"
  shows "InfArray_init N this raw init s =
           Inr (s\<lparr>objs := (objs s)(this := \<lparr>data_m = buf_start (next_buf s),
                  size_m = length init, arr_m = map raw [0..<N],
                  vec_m = \<lparr>vbuf = Some (next_buf s), vlen = length init\<rparr>\<rparr>),
                 bufs := (bufs s)(next_buf s \<mapsto> init),
                 next_buf := Suc (next_buf s)\<rparr>)"
proof -
  let ?s1 = "s\<lparr>objs := (objs s)(this := \<lparr>data_m = buf_start (next_buf s),
                  size_m = length init, arr_m = map raw [0..<N],
                  vec_m = \<lparr>vbuf = Some (next_buf s), vlen = length init\<rparr>\<rparr>),
                 bufs := (bufs s)(next_buf s \<mapsto> replicate (length init) 0),
                 next_buf := Suc (next_buf s)\<rparr>"
  have sl: "slots_at ?s1 (buf_start (next_buf s)) = Some (replicate (length init) 0)" by simp
  have len: "0 + length init \<le> length (replicate (length init) (0::'a))" by simp
  have ne: "init \<noteq> []" using assms by auto
  have "copy_in (buf_start (next_buf s)) 0 init ?s1
          = Inr (if init = [] then ?s1
                 else put_slots (buf_start (next_buf s))
                        (overwrite (replicate (length init) 0) 0 init) ?s1)"
    using copy_in_slots [OF sl len] .
  then show ?thesis
    unfolding InfArray_init_def init_resize_heap [OF assms]
    using ne by (simp add: overwrite_def)
qed

text \<open>
  Claim C10. Constructing from a literal sequence always succeeds, gives the size of the
  sequence and reads back the listed elements in order. When the sequence is no longer than
  the threshold, the boundary included, the heap buffer has length 0, the active pointer is
  the container's own inline buffer and nothing is allocated (the allocations and the
  allocation counter are as before); only for a longer sequence is a buffer allocated, of
  the length of the sequence.
\<close>

theorem init_list_ctor:
  "\<exists>s'. InfArray_init N this raw init s = Inr s'
      \<and> size_of this s' = length init
      \<and> elements this s' = Inr init
      \<and> (if length init \<le> N
          then vec_size this s' = 0 \<and> data_m (objs s' this) = arr_front this
               \<and> bufs s' = bufs s \<and> next_buf s' = next_buf s
          else vec_size this s' = length init
               \<and> data_m (objs s' this) = buf_start (next_buf s)
               \<and> next_buf s' = Suc (next_buf s))"
proof (cases "length init \<le> N")
  case True
  show ?thesis
    using True
    by (simp add: InfArray_init_inline size_of_def vec_size_def elements_def load_all_slots)
next
  case False
  then have "N < length init" by simp
  then show ?thesis
    by (simp add: InfArray_init_heap size_of_def vec_size_def elements_def load_all_slots)
qed

subsection \<open>Appending across the threshold and shrinking back\<close>

text \<open>
  Below the threshold \<^verbatim>\<open>push_back\<close> writes the next inline slot; at the threshold it migrates
  to a fresh allocation; \<^verbatim>\<open>resize\<close> from above the threshold to a size at most the threshold
  copies the prefix back into the inline buffer.
\<close>

lemma push_back_inline:
  assumes "objs s this = \<lparr>data_m = d, size_m = k, arr_m = xs, vec_m = v\<rparr>"
    and "k < N" and "length xs = N"
  shows "push_back debug N this x s =
           Inr (s\<lparr>objs := (objs s)(this :=
                  \<lparr>data_m = d, size_m = Suc k, arr_m = xs[k := x], vec_m = v\<rparr>)\<rparr>)"
  using assms
  by (simp add: push_back_def assign_def write_range_def overwrite_def upd_obj_def
      upd_conv_take_nth_drop)

lemma overwrite_update:
  "k + Suc (length vs) \<le> length xs \<Longrightarrow>
   overwrite (xs[k := v]) (Suc k) vs = overwrite xs k (v # vs)"
  by (simp add: overwrite_def upd_conv_take_nth_drop add.commute)

lemma push_all_inline:
  assumes "objs s this = \<lparr>data_m = d, size_m = k, arr_m = xs, vec_m = v\<rparr>"
    and "k + length vs \<le> N" and "length xs = N"
  shows "push_all debug N this vs s =
           Inr (s\<lparr>objs := (objs s)(this :=
                  \<lparr>data_m = d, size_m = k + length vs, arr_m = overwrite xs k vs,
                   vec_m = v\<rparr>)\<rparr>)"
  using assms
proof (induction vs arbitrary: s k xs)
  case Nil
  have "(objs s)(this := \<lparr>data_m = d, size_m = k, arr_m = xs, vec_m = v\<rparr>) = objs s"
    using Nil.prems(1) by (metis fun_upd_triv)
  then show ?case by (simp add: overwrite_def)
next
  case (Cons x vs)
  let ?s1 = "s\<lparr>objs := (objs s)(this :=
                  \<lparr>data_m = d, size_m = Suc k, arr_m = xs[k := x], vec_m = v\<rparr>)\<rparr>"
  have k: "k < N" using Cons.prems by simp
  have pb: "push_back debug N this x s = Inr ?s1"
    using push_back_inline [OF Cons.prems(1) k Cons.prems(3)] .
  have o1: "objs ?s1 this = \<lparr>data_m = d, size_m = Suc k, arr_m = xs[k := x], vec_m = v\<rparr>"
    by simp
  have l1: "Suc k + length vs \<le> N" using Cons.prems by simp
  have l2: "length (xs[k := x]) = N" using Cons.prems by simp
  have ov: "overwrite (xs[k := x]) (Suc k) vs = overwrite xs k (x # vs)"
    using Cons.prems by (simp add: overwrite_update)
  have "push_all debug N this (x # vs) s = push_all debug N this vs ?s1"
    using pb by simp
  also have "\<dots> = Inr (?s1\<lparr>objs := (objs ?s1)(this :=
                  \<lparr>data_m = d, size_m = Suc k + length vs,
                   arr_m = overwrite (xs[k := x]) (Suc k) vs, vec_m = v\<rparr>)\<rparr>)"
    using Cons.IH [OF o1 l1 l2] .
  also have "\<dots> = Inr (s\<lparr>objs := (objs s)(this :=
                  \<lparr>data_m = d, size_m = k + length (x # vs),
                   arr_m = overwrite xs k (x # vs), vec_m = v\<rparr>)\<rparr>)"
    by (simp add: ov)
  finally show ?case .
qed

lemma push_all_append:
  "push_all debug N this (xs @ ys) s =
     (case push_all debug N this xs s of
        Inl e \<Rightarrow> Inl e
      | Inr s1 \<Rightarrow> push_all debug N this ys s1)"
  by (induction xs arbitrary: s) (simp_all split: sum.splits)

lemma push_back_migrate:
  assumes "objs s this = \<lparr>data_m = d, size_m = N, arr_m = xs,
                           vec_m = \<lparr>vbuf = None, vlen = 0\<rparr>\<rparr>"
    and "length xs = N"
  shows "push_back debug N this x s =
           Inr (s\<lparr>objs := (objs s)(this :=
                  \<lparr>data_m = buf_start (next_buf s), size_m = Suc N, arr_m = xs,
                   vec_m = \<lparr>vbuf = Some (next_buf s), vlen = Suc N\<rparr>\<rparr>),
                 bufs := (bufs s)(next_buf s \<mapsto> xs @ [x]),
                 next_buf := Suc (next_buf s)\<rparr>)"
  using assms
  by (auto simp add: push_back_def resize_def back_ref_def check_empty_def assign_def vec_defs
      read_range_def write_range_def overwrite_def upd_obj_def Let_def replicate_append_same)

lemma resize_to_inline:
  assumes "objs s this = \<lparr>data_m = d, size_m = m, arr_m = xs,
                           vec_m = \<lparr>vbuf = Some b, vlen = m\<rparr>\<rparr>"
    and "bufs s b = Some ys" and "N < m" and "n \<le> N" and "n \<le> length ys"
    and "length xs = N"
  shows "resize N this n s =
           Inr (s\<lparr>objs := (objs s)(this :=
                  \<lparr>data_m = arr_front this, size_m = n, arr_m = take n ys @ drop n xs,
                   vec_m = \<lparr>vbuf = Some b, vlen = 0\<rparr>\<rparr>)\<rparr>)"
  using assms
  by (auto simp add: resize_def vec_defs read_range_def write_range_def overwrite_def
      upd_obj_def Let_def)

text \<open>
  Claim C4. For a threshold \<open>N > 0\<close> and any \<open>N + 1\<close> values, pushing them onto an empty
  container succeeds; then the size and the heap length are \<open>N + 1\<close>, the active pointer
  is the start of the vector's allocation and the elements read at the indices \<open>0\<close>, ...,
  \<open>N\<close> are the values in order. A following \<^verbatim>\<open>resize(N - 1)\<close> succeeds and leaves size
  \<open>N - 1\<close>, heap length 0, the active pointer at the inline buffer and the first \<open>N - 1\<close>
  values unchanged. This holds with and without \<^verbatim>\<open>DEBUG\<close>.
\<close>

theorem push_back_round_trip:
  assumes "0 < N" and "length vs = Suc N"
  shows "\<exists>s1 s2. push_all debug N this vs (InfArray_empty N this raw s) = Inr s1
      \<and> size_of this s1 = Suc N \<and> vec_size this s1 = Suc N
      \<and> data_m (objs s1 this) = buf_start (next_buf s)
      \<and> vec_data (vec_m (objs s1 this)) = buf_start (next_buf s)
      \<and> elements this s1 = Inr vs
      \<and> resize N this (N - 1) s1 = Inr s2
      \<and> size_of this s2 = N - 1 \<and> vec_size this s2 = 0
      \<and> data_m (objs s2 this) = arr_front this
      \<and> elements this s2 = Inr (take (N - 1) vs)"
proof -
  let ?nb = "next_buf s"
  let ?s0 = "InfArray_empty N this raw s"
  let ?pre = "take N vs"
  let ?sA = "?s0\<lparr>objs := (objs ?s0)(this :=
                \<lparr>data_m = arr_front this, size_m = 0 + length ?pre,
                 arr_m = overwrite (map raw [0..<N]) 0 ?pre,
                 vec_m = \<lparr>vbuf = None, vlen = 0\<rparr>\<rparr>)\<rparr>"
  let ?sB = "?sA\<lparr>objs := (objs ?sA)(this :=
                \<lparr>data_m = buf_start ?nb, size_m = Suc N, arr_m = ?pre,
                 vec_m = \<lparr>vbuf = Some ?nb, vlen = Suc N\<rparr>\<rparr>),
               bufs := (bufs ?sA)(?nb \<mapsto> ?pre @ [vs ! N]),
               next_buf := Suc ?nb\<rparr>"
  let ?sC = "?sB\<lparr>objs := (objs ?sB)(this :=
                \<lparr>data_m = arr_front this, size_m = N - 1,
                 arr_m = take (N - 1) vs @ drop (N - 1) ?pre,
                 vec_m = \<lparr>vbuf = Some ?nb, vlen = 0\<rparr>\<rparr>)\<rparr>"
  have lp: "length ?pre = N" using assms by simp
  have split: "vs = ?pre @ [vs ! N]"
    using assms by (metis lessI take_Suc_conv_app_nth take_all order_refl)
  have nb: "next_buf ?sA = ?nb" by (simp add: InfArray_empty_def upd_obj_def)
  have o0: "objs ?s0 this = \<lparr>data_m = arr_front this, size_m = 0, arr_m = map raw [0..<N],
                               vec_m = \<lparr>vbuf = None, vlen = 0\<rparr>\<rparr>"
    by (simp add: InfArray_empty_def upd_obj_def blank_def)
  have stepA: "push_all debug N this ?pre ?s0 = Inr ?sA"
    by (rule push_all_inline [OF o0]) (simp_all add: lp)
  have ovA: "overwrite (map raw [0..<N]) 0 ?pre = ?pre"
    using lp by (simp add: overwrite_def)
  have oA: "objs ?sA this = \<lparr>data_m = arr_front this, size_m = N, arr_m = ?pre,
                               vec_m = \<lparr>vbuf = None, vlen = 0\<rparr>\<rparr>"
    using lp ovA by simp
  have stepB: "push_back debug N this (vs ! N) ?sA = Inr ?sB"
    using push_back_migrate [OF oA lp] unfolding nb .
  have all: "push_all debug N this vs ?s0 = Inr ?sB"
  proof -
    have "push_all debug N this vs ?s0 = push_all debug N this (?pre @ [vs ! N]) ?s0"
      using split by simp
    also have "\<dots> = push_all debug N this [vs ! N] ?sA"
      by (simp only: push_all_append stepA sum.case)
    also have "\<dots> = Inr ?sB"
      by (simp only: push_all.simps stepB sum.case)
    finally show ?thesis .
  qed
  have bB: "bufs ?sB ?nb = Some vs"
    using split by simp
  have oB: "objs ?sB this = \<lparr>data_m = buf_start ?nb, size_m = Suc N, arr_m = ?pre,
                               vec_m = \<lparr>vbuf = Some ?nb, vlen = Suc N\<rparr>\<rparr>"
    by simp
  have elB: "elements this ?sB = Inr vs"
  proof -
    have "slots_at ?sB (buf_start ?nb) = Some vs" using bB by simp
    then have "load_all ?sB (buf_start ?nb) (Suc N) = Inr (take (Suc N) vs)"
      by (rule load_all_slots) (simp add: assms)
    then show ?thesis using assms by (simp add: elements_def del: load_all.simps)
  qed
  have stepC: "resize N this (N - 1) ?sB = Inr ?sC"
    by (rule resize_to_inline [OF oB bB]) (simp_all add: assms lp)
  have oC: "objs ?sC this = \<lparr>data_m = arr_front this, size_m = N - 1,
                 arr_m = take (N - 1) vs @ drop (N - 1) ?pre,
                 vec_m = \<lparr>vbuf = Some ?nb, vlen = 0\<rparr>\<rparr>"
    by simp
  have elC: "elements this ?sC = Inr (take (N - 1) vs)"
  proof -
    have "slots_at ?sC (arr_front this) = Some (take (N - 1) vs @ drop (N - 1) ?pre)"
      using oC by simp
    then have "load_all ?sC (arr_front this) (N - 1)
                 = Inr (take (N - 1) (take (N - 1) vs @ drop (N - 1) ?pre))"
      by (rule load_all_slots) (simp add: assms)
    then show ?thesis using assms by (simp add: elements_def del: load_all.simps)
  qed
  show ?thesis
    using all oB elB stepC oC elC
    by (intro exI [of _ ?sB] exI [of _ ?sC]) (simp add: size_of_def vec_size_def vec_data_def)
qed

theorem push_back_round_trip_witness:
  "0 < (2::nat) \<and> length [10, 20, 30::int] = Suc 2
   \<and> (\<exists>s1 s2. push_all True 2 0 [10, 20, 30] (InfArray_empty 2 0 (\<lambda>_. 0) mem0) = Inr s1
      \<and> size_of 0 s1 = Suc 2 \<and> vec_size 0 s1 = Suc 2
      \<and> data_m (objs s1 0) = buf_start (next_buf mem0)
      \<and> vec_data (vec_m (objs s1 0)) = buf_start (next_buf mem0)
      \<and> elements 0 s1 = Inr [10, 20, 30]
      \<and> resize 2 0 (2 - 1) s1 = Inr s2
      \<and> size_of 0 s2 = 2 - 1 \<and> vec_size 0 s2 = 0
      \<and> data_m (objs s2 0) = arr_front 0
      \<and> elements 0 s2 = Inr (take (2 - 1) [10, 20, 30]))"
  using push_back_round_trip [of 2 "[10, 20, 30::int]" True 0 "\<lambda>_. 0" mem0] by simp

subsection \<open>The relation between the size and the heap length\<close>

text \<open>
  The default constructor, the initializer-list constructor, \<^verbatim>\<open>clear\<close>, \<^verbatim>\<open>resize\<close> and
  \<^verbatim>\<open>assign\<close> establish the relation \<open>heap_inv\<close>, \<^verbatim>\<open>fill\<close>, \<^verbatim>\<open>push_back\<close> and \<^verbatim>\<open>swap\<close> keep
  it, and the sized constructor establishes it for every length but the threshold itself.
\<close>

lemma heap_inv_InfArray_empty: "heap_inv N this (InfArray_empty N this raw s)"
  by (simp add: heap_inv_def InfArray_empty_def blank_def upd_obj_def size_of_def vec_size_def)

lemma heap_inv_InfArray_sized:
  assumes "sz \<noteq> N"
  shows "heap_inv N this (InfArray_sized N this raw sz s)"
  using assms
  by (simp add: heap_inv_def InfArray_sized_def vec_defs blank_def upd_obj_def size_of_def
      vec_size_def Let_def)

lemma heap_inv_clear: "heap_inv N this (clear this s)"
  by (simp add: heap_inv_def clear_def vec_clear_def vec_set_len_def upd_obj_def size_of_def
      vec_size_def)

lemma sizes_write_range:
  assumes "write_range p i vs s = Inr s'"
  shows "size_m (objs s' a) = size_m (objs s a) \<and> vec_m (objs s' a) = vec_m (objs s a)"
  using assms
  by (cases p) (auto simp add: write_range_def upd_obj_def split: if_splits option.splits)

lemma heap_inv_resize:
  assumes "resize N this n s = Inr s'"
  shows "heap_inv N this s'"
proof (cases "N < n")
  case True
  let ?s1 = "vec_resize this n s"
  have v: "vlen (vec_m (objs ?s1 this)) = n"
    using True by (simp add: vec_defs upd_obj_def Let_def)
  from assms True obtain s2 where
    s2: "s2 = ?s1 \<or> (\<exists>p i xs. write_range p i xs ?s1 = Inr s2)"
    and s': "s' = upd_obj this (\<lambda>obj. obj\<lparr>size_m := n\<rparr>)
                    (upd_obj this (\<lambda>obj. obj\<lparr>data_m := vec_data (vec_m obj)\<rparr>) s2)"
    by (auto simp add: resize_def Let_def split: if_splits sum.splits)
  from s2 v have "vlen (vec_m (objs s2 this)) = n"
    using sizes_write_range by metis
  then show ?thesis
    using True by (simp add: s' heap_inv_def upd_obj_def size_of_def vec_size_def)
next
  case False
  with assms obtain s1 where
    s': "s' = upd_obj this (\<lambda>obj. obj\<lparr>size_m := n\<rparr>)
                (upd_obj this (\<lambda>obj. obj\<lparr>data_m := arr_front this\<rparr>) (vec_clear this s1))"
    by (auto simp add: resize_def split: if_splits sum.splits)
  show ?thesis
    using False
    by (simp add: s' heap_inv_def vec_clear_def vec_set_len_def upd_obj_def size_of_def
        vec_size_def)
qed

lemma heap_inv_fill:
  assumes "fill this val s = Inr s'" and "heap_inv N a s"
  shows "heap_inv N a s'"
  using assms sizes_write_range [of "data_m (objs s this)" 0 _ s s' a]
  by (simp add: fill_def heap_inv_def size_of_def vec_size_def)

lemma heap_inv_assign_count:
  assumes "assign_count N this count val s = Inr s'"
  shows "heap_inv N this s'"
  using assms
  by (auto simp add: assign_count_def split: sum.splits
      intro: heap_inv_fill heap_inv_resize)

lemma sizes_vec_push_back:
  "vlen (vec_m (objs (vec_push_back this x s) this)) = Suc (vlen (vec_m (objs s this)))
   \<and> size_m (objs (vec_push_back this x s) this) = size_m (objs s this)"
  by (cases "vbuf (vec_m (objs s this))")
     (simp_all add: vec_defs upd_obj_def Let_def)

lemma heap_inv_push_back:
  assumes "push_back debug N this val s = Inr s'" and "heap_inv N this s"
  shows "heap_inv N this s'"
proof -
  consider "size_m (objs s this) < N" | "size_m (objs s this) = N" | "N < size_m (objs s this)"
    by linarith
  then show ?thesis
  proof cases
    case 1
    with assms(1) obtain s1 where
      w: "write_range (arr_front this) (size_m (objs s this)) [val] s = Inr s1"
      and s': "s' = upd_obj this (\<lambda>obj. obj\<lparr>size_m := Suc (size_m obj)\<rparr>) s1"
      by (auto simp add: push_back_def assign_def split: sum.splits)
    from sizes_write_range [OF w, of this] assms(2) 1 show ?thesis
      by (simp add: s' heap_inv_def upd_obj_def size_of_def vec_size_def)
  next
    case 2
    with assms(1) obtain s1 r where
      r: "resize N this (Suc N) s = Inr s1" and a: "assign r val s1 = Inr s'"
      by (auto simp add: push_back_def split: sum.splits)
    from heap_inv_resize [OF r] have "heap_inv N this s1" .
    moreover from a have "size_m (objs s' this) = size_m (objs s1 this)
        \<and> vec_m (objs s' this) = vec_m (objs s1 this)"
      unfolding assign_def by (rule sizes_write_range)
    ultimately show ?thesis
      by (simp add: heap_inv_def size_of_def vec_size_def)
  next
    case 3
    with assms(1) have
      s': "s' = upd_obj this (\<lambda>obj. obj\<lparr>size_m := Suc (size_m obj)\<rparr>)
                  (upd_obj this (\<lambda>obj. obj\<lparr>data_m := vec_data (vec_m obj)\<rparr>)
                    (vec_push_back this val s))"
      by (auto simp add: push_back_def Let_def)
    from sizes_vec_push_back [of this val s] assms(2) 3 show ?thesis
      by (simp add: s' heap_inv_def upd_obj_def size_of_def vec_size_def)
  qed
qed

lemma sizes_swap:
  "size_m (objs (swap this other s) this) = size_m (objs s other)
   \<and> vec_m (objs (swap this other s) this) = vec_m (objs s other)
   \<and> size_m (objs (swap this other s) other) = size_m (objs s this)
   \<and> vec_m (objs (swap this other s) other) = vec_m (objs s this)"
  by (cases "this = other") (simp_all add: swap_def upd_obj_def Let_def)

lemma heap_inv_swap:
  assumes "heap_inv N this s" and "heap_inv N other s"
  shows "heap_inv N this (swap this other s) \<and> heap_inv N other (swap this other s)"
  using assms by (simp add: heap_inv_def size_of_def vec_size_def sizes_swap)

lemma heap_inv_InfArray_init:
  assumes "InfArray_init N this raw init s = Inr s'"
  shows "heap_inv N this s'"
  using assms
  by (cases "length init \<le> N")
     (auto simp add: InfArray_init_inline InfArray_init_heap heap_inv_def size_of_def
       vec_size_def)

text \<open>
  Claim C3. The claim: in every state reachable through the public interface the heap
  buffer is empty when the size is at most the threshold, and has the length of the
  container otherwise. The state right after \<^verbatim>\<open>InfArray<T,4>(4)\<close> is reachable and has size
  4, not above the threshold, with a heap buffer of length 4: the relation fails there.
\<close>

theorem sized_ctor_breaks_heap_inv:
  "\<not> heap_inv 4 this (InfArray_sized 4 this raw 4 s)"
  by (simp add: heap_inv_def InfArray_sized_def vec_defs blank_def upd_obj_def size_of_def
      vec_size_def Let_def)

subsection \<open>swap\<close>

lemma swap_data_pointers:
  assumes "this \<noteq> other"
  shows "data_m (objs (swap this other s) this) = data_m (objs s other)
       \<and> data_m (objs (swap this other s) other) = data_m (objs s this)
       \<and> arr_m (objs (swap this other s) this) = arr_m (objs s other)
       \<and> arr_m (objs (swap this other s) other) = arr_m (objs s this)"
  using assms by (simp add: swap_def upd_obj_def Let_def)

text \<open>
  Claim C1. The claim: after \<^verbatim>\<open>A.swap(B)\<close> the contents are exchanged and each active
  pointer designates storage of its own container; with threshold 4, \<open>A\<close> inline-backed
  holding \<open>1, 2, 3\<close> and \<open>B\<close> heap-backed holding \<open>9, 8, 7, 6, 5\<close>, afterwards \<open>B\<close> reads
  \<open>1, 2, 3\<close> from its inline buffer. The run, with \<open>A\<close> the object 0 and \<open>B\<close> the object 1,
  both filled by \<^verbatim>\<open>push_back\<close>: after the swap \<open>A\<close> has size 5 and reads \<open>9, 8, 7, 6, 5\<close>
  and \<open>B\<close> has size 3 and holds \<open>1, 2, 3\<close> in its own inline buffer, but the active
  pointer of \<open>B\<close> is the start of the inline buffer of \<open>A\<close>, which now holds the former
  inline contents of \<open>B\<close>, and \<open>B\<close> reads \<open>9, 8, 7\<close>.
\<close>

theorem swap_aliases_inline_buffer:
  "(case push_all False 4 0 [1, 2, 3::int] (InfArray_empty 4 0 (\<lambda>_. 0) s) of
      Inl e \<Rightarrow> False
    | Inr sa \<Rightarrow>
       (case push_all False 4 1 [9, 8, 7, 6, 5] (InfArray_empty 4 1 (\<lambda>_. 0) sa) of
          Inl e \<Rightarrow> False
        | Inr sb \<Rightarrow>
            elements 0 sb = Inr [1, 2, 3] \<and> elements 1 sb = Inr [9, 8, 7, 6, 5]
            \<and> size_of 0 (swap 0 1 sb) = 5 \<and> size_of 1 (swap 0 1 sb) = 3
            \<and> arr_m (objs (swap 0 1 sb) 0) = [9, 8, 7, 6]
            \<and> arr_m (objs (swap 0 1 sb) 1) = [1, 2, 3, 0]
            \<and> data_m (objs (swap 0 1 sb) 1) = arr_front 0
            \<and> elements 0 (swap 0 1 sb) = Inr [9, 8, 7, 6, 5]
            \<and> elements 1 (swap 0 1 sb) = Inr [9, 8, 7]))"
  by (simp add: vec_defs mem_defs op_defs Let_def numeral_eq_Suc upt_rec)

subsection \<open>Moving and copying\<close>

text \<open>
  Claim C5. The claim: after a move the source is empty and inline-active (size 0, empty
  heap buffer, active pointer at its own inline buffer) and the destination holds the
  former size and values. The run: \<open>B\<close>, the object 1, threshold 4, is filled with
  \<open>9, 8, 7, 6, 5\<close> by \<^verbatim>\<open>push_back\<close> and is heap-backed; the object 2 is move-constructed
  from it, or default-constructed and then move-assigned from it. Either way the
  destination reads the five values, and the source keeps size 5 with an empty vector and
  an active pointer to the allocation that the destination now owns.
\<close>

theorem move_keeps_source_size:
  "(case push_all False 4 1 [9, 8, 7, 6, 5::int] (InfArray_empty 4 1 (\<lambda>_. 0) s) of
      Inl e \<Rightarrow> False
    | Inr sb \<Rightarrow>
        size_of 1 sb = 5 \<and> vec_size 1 sb = 5 \<and> elements 1 sb = Inr [9, 8, 7, 6, 5]
        \<and> size_of 1 (InfArray_move 2 1 sb) = 5
        \<and> vec_size 1 (InfArray_move 2 1 sb) = 0
        \<and> data_m (objs (InfArray_move 2 1 sb) 1) = buf_start (next_buf s)
        \<and> vbuf (vec_m (objs (InfArray_move 2 1 sb) 2)) = Some (next_buf s)
        \<and> elements 2 (InfArray_move 2 1 sb) = Inr [9, 8, 7, 6, 5]
        \<and> size_of 1 (move_assign 2 1 (InfArray_empty 4 2 (\<lambda>_. 0) sb)) = 5
        \<and> vec_size 1 (move_assign 2 1 (InfArray_empty 4 2 (\<lambda>_. 0) sb)) = 0
        \<and> data_m (objs (move_assign 2 1 (InfArray_empty 4 2 (\<lambda>_. 0) sb)) 1)
            = buf_start (next_buf s)
        \<and> vbuf (vec_m (objs (move_assign 2 1 (InfArray_empty 4 2 (\<lambda>_. 0) sb)) 2))
            = Some (next_buf s))"
  by (simp add: vec_defs mem_defs op_defs Let_def numeral_eq_Suc upt_rec)

text \<open>
  A copy of a heap-backed container gets an allocation of its own with the same elements,
  and an active pointer to the allocation of the source: after \<^verbatim>\<open>B[0] = 42\<close> the copy
  reads 42 as well.
\<close>

lemma copy_shares_heap_storage:
  "(case push_all False 4 1 [9, 8, 7, 6, 5::int] (InfArray_empty 4 1 (\<lambda>_. 0) s) of
      Inl e \<Rightarrow> False
    | Inr sb \<Rightarrow>
        vbuf (vec_m (objs (InfArray_copy 2 1 sb) 1)) = Some (next_buf s)
        \<and> vbuf (vec_m (objs (InfArray_copy 2 1 sb) 2)) = Some (Suc (next_buf s))
        \<and> bufs (InfArray_copy 2 1 sb) (Suc (next_buf s)) = Some [9, 8, 7, 6, 5]
        \<and> data_m (objs (InfArray_copy 2 1 sb) 2) = buf_start (next_buf s)
        \<and> (case index False 1 0 (InfArray_copy 2 1 sb) of
              Inl e \<Rightarrow> False
            | Inr r \<Rightarrow>
                (case assign r 42 (InfArray_copy 2 1 sb) of
                   Inl e \<Rightarrow> False
                 | Inr sw \<Rightarrow> elements 2 sw = Inr [42, 8, 7, 6, 5])))"
  by (simp add: vec_defs mem_defs op_defs Let_def numeral_eq_Suc upt_rec)

text \<open>
  Claim C6. The claim: a copy has its own storage, so that mutating either container never
  changes a value read from the other. The run: \<open>A\<close>, the object 0, threshold 4, is
  constructed from the list \<open>1, 2, 3\<close>; the object 2 is copy-constructed from it. The active
  pointer of the copy is the start of the inline buffer of \<open>A\<close>, and after \<^verbatim>\<open>A[0] = 42\<close> the
  copy reads \<open>42, 2, 3\<close>. Copy assignment to a default-constructed object leaves the same
  pointer.
\<close>

theorem copy_shares_storage:
  "(case InfArray_init 4 0 (\<lambda>_. 0) [1, 2, 3::int] s of
      Inl e \<Rightarrow> False
    | Inr sa \<Rightarrow>
        elements 0 sa = Inr [1, 2, 3]
        \<and> data_m (objs (InfArray_copy 2 0 sa) 2) = arr_front 0
        \<and> elements 2 (InfArray_copy 2 0 sa) = Inr [1, 2, 3]
        \<and> (case index False 0 0 (InfArray_copy 2 0 sa) of
              Inl e \<Rightarrow> False
            | Inr r \<Rightarrow>
                (case assign r 42 (InfArray_copy 2 0 sa) of
                   Inl e \<Rightarrow> False
                 | Inr sw \<Rightarrow> elements 0 sw = Inr [42, 2, 3] \<and> elements 2 sw = Inr [42, 2, 3]))
        \<and> data_m (objs (copy_assign 2 0 (InfArray_empty 4 2 (\<lambda>_. 0) sa)) 2) = arr_front 0)"
  by (simp add: vec_defs mem_defs op_defs Let_def numeral_eq_Suc upt_rec)

end
